theory Spec2Isabelle
  imports Complex_Main "HOL-Library.Monad_Syntax"
begin

section \<open>Tone analysis service (server/services/tone.py)\<close>

text \<open>
  Modelling conventions.
  \<^item> A Python \<open>str\<close> is a \<open>string\<close>; each \<open>char\<close> stands for the Unicode code point
    of the same number, so the texts covered are those over code points 0..255
    (ASCII, the C0/C1 control characters and Latin-1).
  \<^item> Python \<open>int\<close> is \<open>int\<close>. Python \<open>float\<close> is \<open>rat\<close>: every float of the service is
    the result of dividing, adding and multiplying integers and decimal literals, and the
    model computes those exactly; rounding of IEEE doubles is not modelled.
  \<^item> The only exception the service can raise is \<open>ZeroDivisionError\<close>, from \<open>/\<close> with a
    denominator that is not a literal. Such a division is \<open>truediv\<close>, whose result
    \<open>None\<close> stands for the raised exception.
\<close>

subsection \<open>Character classes of Python's \<open>str\<close> and \<open>re\<close>\<close>

definition code_point :: "char \<Rightarrow> nat" where
  "code_point c = of_char c"

text \<open>\<open>str.isspace\<close>, which \<open>str.strip()\<close> and \<open>str.split()\<close> use: TAB, LF, VT, FF, CR,
  the separators 0x1C..0x1F, space, NEL (0x85) and NBSP (0xA0).\<close>

definition py_isspace :: "char \<Rightarrow> bool" where
  "py_isspace c =
     (let n = code_point c
      in (9 \<le> n \<and> n \<le> 13) \<or> (28 \<le> n \<and> n \<le> 32) \<or> n = 133 \<or> n = 160)"

text \<open>The class \<open>[A-Z]\<close>.\<close>

definition ascii_upper :: "char \<Rightarrow> bool" where
  "ascii_upper c = (let n = code_point c in 65 \<le> n \<and> n \<le> 90)"

text \<open>The class \<open>\w\<close> of a \<open>str\<close> pattern: the code points that are alphanumeric for
  Unicode, and the underscore. Below 256 these are the ASCII digits and letters, the
  ordinal indicators 0xAA and 0xBA, the superscripts 0xB2, 0xB3 and 0xB9, the micro sign
  0xB5, the fractions 0xBC..0xBE and the Latin-1 letters 0xC0..0xFF without the
  multiplication sign 0xD7 and the division sign 0xF7.\<close>

definition re_word_char :: "char \<Rightarrow> bool" where
  "re_word_char c =
     (let n = code_point c
      in (48 \<le> n \<and> n \<le> 57) \<or> (65 \<le> n \<and> n \<le> 90) \<or> n = 95 \<or> (97 \<le> n \<and> n \<le> 122)
         \<or> n = 170 \<or> n = 178 \<or> n = 179 \<or> n = 181 \<or> n = 185 \<or> n = 186
         \<or> (188 \<le> n \<and> n \<le> 190)
         \<or> (192 \<le> n \<and> n \<le> 214) \<or> (216 \<le> n \<and> n \<le> 246) \<or> (248 \<le> n \<and> n \<le> 255))"

text \<open>\<open>str.lower()\<close> on one code point: the upper-case letters are A..Z and the Latin-1
  capitals 0xC0..0xDE without 0xD7; the lower-case form is 32 code points higher.\<close>

definition lower_char :: "char \<Rightarrow> char" where
  "lower_char c =
     (let n = code_point c
      in if (65 \<le> n \<and> n \<le> 90) \<or> (192 \<le> n \<and> n \<le> 214) \<or> (216 \<le> n \<and> n \<le> 222)
         then char_of (n + 32) else c)"

definition py_lower :: "string \<Rightarrow> string" where
  "py_lower s = map lower_char s"

text \<open>\<open>str.strip()\<close>: white space removed at both ends.\<close>

definition py_strip :: "string \<Rightarrow> string" where
  "py_strip s = rev (dropWhile py_isspace (rev (dropWhile py_isspace s)))"

subsection \<open>Scanners\<close>

text \<open>The maximal runs of the elements that satisfy \<open>P\<close>, from left to right. This is
  what \<open>findall\<close> returns for a pattern \<open>[class]+\<close>, and what \<open>str.split()\<close> returns
  for the class of the characters that are not white space.\<close>

function runs :: "('a \<Rightarrow> bool) \<Rightarrow> 'a list \<Rightarrow> 'a list list" where
  "runs P [] = []"
| "runs P (x # xs) =
     (if P x then takeWhile P (x # xs) # runs P (dropWhile P xs) else runs P xs)"
  by pat_completeness auto
termination
  by (relation "measure (\<lambda>(P, xs). length xs)") (auto simp: le_imp_less_Suc length_dropWhile_le)

text \<open>\<open>text.split()\<close>.\<close>

definition py_split :: "string \<Rightarrow> string list" where
  "py_split s = runs (\<lambda>c. \<not> py_isspace c) s"

text \<open>\<open>word_pattern.findall\<close>, the pattern \<open>\b\w+\b\<close>: a match starts where a run of
  word characters starts and, \<open>\w+\<close> being greedy and the final \<open>\b\<close> failing inside
  a run, it is the whole run.\<close>

definition word_findall :: "string \<Rightarrow> string list" where
  "word_findall s = runs re_word_char s"

text \<open>\<open>exclamation_pattern.findall\<close> (\<open>!+\<close>) and \<open>question_pattern.findall\<close> (\<open>\?+\<close>).\<close>

definition exclamation_findall :: "string \<Rightarrow> string list" where
  "exclamation_findall s = runs (\<lambda>c. c = CHR ''!'') s"

definition question_findall :: "string \<Rightarrow> string list" where
  "question_findall s = runs (\<lambda>c. c = CHR ''?'') s"

text \<open>\<open>caps_pattern.findall\<close>, the pattern \<open>\b[A-Z]{2,}\b\<close>: the two \<open>\b\<close> make a match
  a whole run of word characters, and the class and the bound make it a run of two or
  more letters of A..Z.\<close>

definition caps_findall :: "string \<Rightarrow> string list" where
  "caps_findall s = filter (\<lambda>w. 2 \<le> length w \<and> list_all ascii_upper w) (runs re_word_char s)"

text \<open>\<open>ellipsis_pattern.findall\<close>, the pattern \<open>\.{3,}\<close>: the runs of three or more
  full stops (the quantifier is greedy, so a run is matched whole).\<close>

definition ellipsis_findall :: "string \<Rightarrow> string list" where
  "ellipsis_findall s = filter (\<lambda>r. 3 \<le> length r) (runs (\<lambda>c. c = CHR ''.'') s)"

text \<open>\<open>emoticon_pattern\<close>: \<open>[:;=]-?[)D(P\\/]|[)D(P\\/]-?[:;=]\<close>. \<open>emoticon_match s\<close> is the
  length of the match that starts at the head of \<open>s\<close>, the first alternative tried first,
  the optional hyphen tried first.\<close>

definition emoticon_eyes :: "char \<Rightarrow> bool" where
  "emoticon_eyes c = (c = CHR '':'' \<or> c = CHR '';'' \<or> c = CHR ''='')"

definition emoticon_mouth :: "char \<Rightarrow> bool" where
  "emoticon_mouth c =
     (c = CHR '')'' \<or> c = CHR ''D'' \<or> c = CHR ''('' \<or> c = CHR ''P'' \<or> c = CHR 0x5C \<or> c = CHR ''/'')"

fun emoticon_match :: "string \<Rightarrow> nat option" where
  "emoticon_match (a # b # c # rest) =
     (if emoticon_eyes a \<and> b = CHR ''-'' \<and> emoticon_mouth c then Some 3
      else if emoticon_eyes a \<and> emoticon_mouth b then Some 2
      else if emoticon_mouth a \<and> b = CHR ''-'' \<and> emoticon_eyes c then Some 3
      else if emoticon_mouth a \<and> emoticon_eyes b then Some 2
      else None)"
| "emoticon_match [a, b] =
     (if emoticon_eyes a \<and> emoticon_mouth b then Some 2
      else if emoticon_mouth a \<and> emoticon_eyes b then Some 2
      else None)"
| "emoticon_match _ = None"

text \<open>\<open>findall\<close>: leftmost matches that do not overlap; after a match the scan goes on
  behind it, otherwise one character further.\<close>

function emoticon_findall :: "string \<Rightarrow> string list" where
  "emoticon_findall [] = []"
| "emoticon_findall (a # s) =
     (case emoticon_match (a # s) of
        Some n \<Rightarrow> take n (a # s) # emoticon_findall (drop (n - 1) s)
      | None \<Rightarrow> emoticon_findall s)"
  by pat_completeness auto
termination
  by (relation "measure length") auto

text \<open>\<open>re.split(r'[.!?]+', text)\<close>: the pieces between the runs of sentence punctuation,
  the empty pieces at both ends included.\<close>

definition sentence_punct :: "char \<Rightarrow> bool" where
  "sentence_punct c = (c = CHR ''.'' \<or> c = CHR ''!'' \<or> c = CHR ''?'')"

function re_split_punct :: "string \<Rightarrow> string list" where
  "re_split_punct s =
     (let piece = takeWhile (\<lambda>c. \<not> sentence_punct c) s;
          rest = dropWhile (\<lambda>c. \<not> sentence_punct c) s
      in if rest = [] then [piece]
         else piece # re_split_punct (dropWhile sentence_punct rest))"
  by pat_completeness auto
termination
proof (relation "measure length", goal_cases)
  case 1
  show ?case by simp
next
  case (2 s piece rest)
  then have ne: "rest \<noteq> []" and r: "rest = dropWhile (\<lambda>c. \<not> sentence_punct c) s"
    by simp_all
  from ne r have "sentence_punct (hd rest)"
    using hd_dropWhile [of "\<lambda>c. \<not> sentence_punct c" s] by simp
  with ne have "dropWhile sentence_punct rest = dropWhile sentence_punct (tl rest)"
    by (cases rest) simp_all
  then have "length (dropWhile sentence_punct rest) \<le> length (tl rest)"
    using length_dropWhile_le [of sentence_punct "tl rest"] by simp
  with ne have "length (dropWhile sentence_punct rest) < length rest"
    by (cases rest) simp_all
  moreover have "length rest \<le> length s"
    using r by (simp add: length_dropWhile_le)
  ultimately show ?case by simp
qed

declare re_split_punct.simps [simp del]

subsection \<open>Data model\<close>

datatype sentiment = Sentiment_POSITIVE | Sentiment_NEUTRAL | Sentiment_NEGATIVE

datatype formality = Formality_FORMAL | Formality_NEUTRAL | Formality_CASUAL

text \<open>The \<open>.value\<close> of the two enumerations.\<close>

fun sentiment_value :: "sentiment \<Rightarrow> string" where
  "sentiment_value Sentiment_POSITIVE = ''positive''"
| "sentiment_value Sentiment_NEUTRAL = ''neutral''"
| "sentiment_value Sentiment_NEGATIVE = ''negative''"

fun formality_value :: "formality \<Rightarrow> string" where
  "formality_value Formality_FORMAL = ''formal''"
| "formality_value Formality_NEUTRAL = ''neutral''"
| "formality_value Formality_CASUAL = ''casual''"

text \<open>The dictionary that \<open>_extract_features\<close> returns: its keys are fixed, so it is a
  record.\<close>

record features =
  word_count :: int
  char_count :: int
  sentence_count :: int
  avg_word_length :: rat
  exclamation_count :: int
  question_count :: int
  caps_words :: int
  ellipsis_count :: int
  emoticon_count :: int
  positive_word_count :: int
  negative_word_count :: int
  formal_word_count :: int
  casual_word_count :: int
  contraction_count :: int
  positive_ratio :: rat
  negative_ratio :: rat
  formal_ratio :: rat
  casual_ratio :: rat
  contraction_ratio :: rat
  caps_ratio :: rat
  exclamation_ratio :: rat

text \<open>The dictionary \<open>scores\<close>, with its two keys.\<close>

record tone_scores =
  sentiment_score :: rat
  formality_score :: rat

text \<open>\<open>ToneAnalysis\<close>. The field \<open>features\<close> is \<open>None\<close> for the empty dictionary.\<close>

record tone_analysis =
  sentiment :: sentiment
  formality :: formality
  scores :: tone_scores
  confidence :: rat
  features :: "features option"

subsection \<open>Lexicons (\<open>_load_lexicons\<close>)\<close>

definition positive_words :: "string list" where
  "positive_words =
     [''excellent'', ''great'', ''amazing'', ''wonderful'', ''fantastic'', ''awesome'',
      ''love'', ''like'', ''enjoy'', ''appreciate'', ''pleased'', ''happy'', ''glad'',
      ''good'', ''nice'', ''perfect'', ''brilliant'', ''outstanding'', ''superb'',
      ''delighted'', ''thrilled'', ''excited'', ''satisfied'', ''impressed'',
      ''thank'', ''thanks'', ''grateful'', ''blessing'', ''fortunate'', ''lucky'']"

definition negative_words :: "string list" where
  "negative_words =
     [''terrible'', ''awful'', ''horrible'', ''bad'', ''worst'', ''hate'', ''dislike'',
      ''disappointed'', ''frustrated'', ''angry'', ''annoyed'', ''upset'', ''sad'',
      ''wrong'', ''problem'', ''issue'', ''error'', ''mistake'', ''fail'', ''failure'',
      ''difficult'', ''hard'', ''challenging'', ''struggle'', ''trouble'', ''worry'',
      ''concerned'', ''unfortunately'', ''regret'', ''sorry'', ''apologize'']"

definition formal_words :: "string list" where
  "formal_words =
     [''furthermore'', ''moreover'', ''consequently'', ''therefore'', ''nevertheless'',
      ''notwithstanding'', ''accordingly'', ''subsequently'', ''henceforth'',
      ''pursuant'', ''regarding'', ''concerning'', ''pertaining'', ''whereby'',
      ''heretofore'', ''aforementioned'', ''undersigned'', ''herewith'',
      ''establish'', ''facilitate'', ''implement'', ''utilize'', ''demonstrate'',
      ''indicate'', ''constitute'', ''represent'', ''acknowledge'', ''endeavor'']"

definition casual_words :: "string list" where
  "casual_words =
     [''yeah'', ''yep'', ''nope'', ''gonna'', ''wanna'', ''gotta'', ''kinda'', ''sorta'',
      ''stuff'', ''thing'', ''things'', ''guys'', ''dude'', ''awesome'', ''cool'',
      ''super'', ''really'', ''pretty'', ''quite'', ''totally'', ''definitely'',
      ''basically'', ''literally'', ''actually'', ''obviously'', ''seriously'',
      ''honestly'', ''frankly'', ''btw'', ''fyi'', ''imho'', ''tbh'']"

definition contractions :: "string list" where
  "contractions =
     [''won't'', ''can't'', ''don't'', ''didn't'', ''hasn't'', ''haven't'', ''isn't'',
      ''aren't'', ''wasn't'', ''weren't'', ''shouldn't'', ''wouldn't'', ''couldn't'',
      ''I'm'', ''you're'', ''he's'', ''she's'', ''it's'', ''we're'', ''they're'',
      ''I've'', ''you've'', ''we've'', ''they've'', ''I'd'', ''you'd'', ''he'd'',
      ''she'd'', ''we'd'', ''they'd'', ''I'll'', ''you'll'', ''he'll'', ''she'll'',
      ''we'll'', ''they'll'', ''that's'', ''what's'', ''who's'', ''where's'']"

subsection \<open>Feature extraction (\<open>_extract_features\<close>)\<close>

text \<open>Python's \<open>/\<close>: \<open>None\<close> is the \<open>ZeroDivisionError\<close>.\<close>

definition truediv :: "rat \<Rightarrow> rat \<Rightarrow> rat option" where
  "truediv a b = (if b = 0 then None else Some (a / b))"

text \<open>\<open>sum(1 for w in ws if w in lexicon)\<close>.\<close>

definition count_in :: "string list \<Rightarrow> string list \<Rightarrow> int" where
  "count_in lexicon ws = int (length (filter (\<lambda>w. w \<in> set lexicon) ws))"

definition extract_features :: "string \<Rightarrow> features option" where
  "extract_features text =
     (let text_lower = py_lower text;
          ws = word_findall text_lower;
          n_words = int (length ws);
          n_sentences = int (length (filter (\<lambda>s. py_strip s \<noteq> []) (re_split_punct text)));
          n_exclamation = int (length (exclamation_findall text));
          n_caps = int (length (caps_findall text));
          n_positive = count_in positive_words ws;
          n_negative = count_in negative_words ws;
          n_formal = count_in formal_words ws;
          n_casual = count_in casual_words ws;
          n_contraction = count_in contractions (map py_lower (py_split text));
          wc = max n_words 1
      in do {
        avg \<leftarrow> truediv (of_int (sum_list (map (\<lambda>w. int (length w)) ws))) (of_int (max n_words 1));
        r_positive \<leftarrow> truediv (of_int n_positive) (of_int wc);
        r_negative \<leftarrow> truediv (of_int n_negative) (of_int wc);
        r_formal \<leftarrow> truediv (of_int n_formal) (of_int wc);
        r_casual \<leftarrow> truediv (of_int n_casual) (of_int wc);
        r_contraction \<leftarrow> truediv (of_int n_contraction) (of_int wc);
        r_caps \<leftarrow> truediv (of_int n_caps) (of_int wc);
        r_exclamation \<leftarrow> truediv (of_int n_exclamation) (of_int (max n_sentences 1));
        Some \<lparr> word_count = n_words,
               char_count = int (length text),
               sentence_count = n_sentences,
               avg_word_length = avg,
               exclamation_count = n_exclamation,
               question_count = int (length (question_findall text)),
               caps_words = n_caps,
               ellipsis_count = int (length (ellipsis_findall text)),
               emoticon_count = int (length (emoticon_findall text)),
               positive_word_count = n_positive,
               negative_word_count = n_negative,
               formal_word_count = n_formal,
               casual_word_count = n_casual,
               contraction_count = n_contraction,
               positive_ratio = r_positive,
               negative_ratio = r_negative,
               formal_ratio = r_formal,
               casual_ratio = r_casual,
               contraction_ratio = r_contraction,
               caps_ratio = r_caps,
               exclamation_ratio = r_exclamation \<rparr>
      })"

subsection \<open>Sentiment (\<open>_analyze_sentiment\<close>)\<close>

text \<open>The function updates the pair \<open>(positive_score, negative_score)\<close> in four steps; each
  step is a function on the pair.\<close>

definition sentiment_base :: "features \<Rightarrow> rat \<times> rat" where
  "sentiment_base f = (positive_ratio f * 2, negative_ratio f * 2)"

definition sentiment_exclamation :: "features \<Rightarrow> rat \<times> rat \<Rightarrow> rat \<times> rat" where
  "sentiment_exclamation f = (\<lambda>(positive_score, negative_score).
     if exclamation_count f > 0 then
       (if positive_score > negative_score
          then (positive_score + exclamation_ratio f * (5 / 10), negative_score)
        else if negative_score > positive_score
          then (positive_score, negative_score + exclamation_ratio f * (5 / 10))
        else (positive_score, negative_score))
     else (positive_score, negative_score))"

definition sentiment_emoticon :: "features \<Rightarrow> rat \<times> rat \<Rightarrow> rat \<times> rat" where
  "sentiment_emoticon f = (\<lambda>(positive_score, negative_score).
     if emoticon_count f > 0 then (positive_score + 2 / 10, negative_score)
     else (positive_score, negative_score))"

definition sentiment_caps :: "features \<Rightarrow> rat \<times> rat \<Rightarrow> rat \<times> rat" where
  "sentiment_caps f = (\<lambda>(positive_score, negative_score).
     if caps_ratio f > 1 / 10 then
       (if positive_score > negative_score
          then (positive_score + 3 / 10, negative_score)
        else (positive_score, negative_score + 3 / 10))
     else (positive_score, negative_score))"

definition sentiment_category :: "rat \<Rightarrow> sentiment" where
  "sentiment_category net_score =
     (if net_score > 2 / 10 then Sentiment_POSITIVE
      else if net_score < - (2 / 10) then Sentiment_NEGATIVE
      else Sentiment_NEUTRAL)"

definition analyze_sentiment :: "string \<Rightarrow> features \<Rightarrow> sentiment \<times> rat" where
  "analyze_sentiment text f =
     (let (positive_score, negative_score) =
            sentiment_caps f (sentiment_emoticon f (sentiment_exclamation f (sentiment_base f)));
          net_score = positive_score - negative_score
      in (sentiment_category net_score, net_score))"

subsection \<open>Formality (\<open>_analyze_formality\<close>)\<close>

text \<open>The pair is \<open>(formal_score, casual_score)\<close>.\<close>

definition formality_base :: "features \<Rightarrow> rat \<times> rat" where
  "formality_base f = (formal_ratio f * 3, casual_ratio f * 2 + contraction_ratio f * 2)"

definition formality_punctuation :: "features \<Rightarrow> rat \<times> rat \<Rightarrow> rat \<times> rat" where
  "formality_punctuation f = (\<lambda>(formal_score, casual_score).
     let casual_score = (if exclamation_ratio f > 5 / 10 then casual_score + 5 / 10
                         else casual_score);
         casual_score = (if ellipsis_count f > 0 then casual_score + 3 / 10
                         else casual_score)
     in (formal_score, casual_score))"

definition formality_word_length :: "features \<Rightarrow> rat \<times> rat \<Rightarrow> rat \<times> rat" where
  "formality_word_length f = (\<lambda>(formal_score, casual_score).
     if avg_word_length f > 55 / 10 then (formal_score + 5 / 10, casual_score)
     else if avg_word_length f < 4 then (formal_score, casual_score + 3 / 10)
     else (formal_score, casual_score))"

definition formality_sentence_length :: "features \<Rightarrow> rat \<times> rat \<Rightarrow> (rat \<times> rat) option" where
  "formality_sentence_length f = (\<lambda>(formal_score, casual_score).
     if word_count f > 0 \<and> sentence_count f > 0 then do {
       avg_sentence_length \<leftarrow> truediv (of_int (word_count f)) (of_int (sentence_count f));
       Some (if avg_sentence_length > 15 then (formal_score + 4 / 10, casual_score)
             else if avg_sentence_length < 8 then (formal_score, casual_score + 3 / 10)
             else (formal_score, casual_score))
     } else Some (formal_score, casual_score))"

definition formality_category :: "rat \<Rightarrow> formality" where
  "formality_category net_score =
     (if net_score > 5 / 10 then Formality_FORMAL
      else if net_score < - (5 / 10) then Formality_CASUAL
      else Formality_NEUTRAL)"

definition analyze_formality :: "string \<Rightarrow> features \<Rightarrow> (formality \<times> rat) option" where
  "analyze_formality text f = do {
     (formal_score, casual_score) \<leftarrow>
       formality_sentence_length f (formality_word_length f (formality_punctuation f (formality_base f)));
     let net_score = formal_score - casual_score;
     Some (formality_category net_score, net_score)
   }"

subsection \<open>Confidence (\<open>_calculate_confidence\<close>)\<close>

definition length_confidence :: "features \<Rightarrow> rat" where
  "length_confidence f = min (of_int (word_count f) / 50) 1"

definition feature_confidence :: "rat \<Rightarrow> rat \<Rightarrow> rat" where
  "feature_confidence s_score f_score = (\<bar>s_score\<bar> + \<bar>f_score\<bar>) / 2"

definition overall_confidence :: "features \<Rightarrow> rat \<Rightarrow> rat \<Rightarrow> rat" where
  "overall_confidence f s_score f_score =
     length_confidence f * (6 / 10) + feature_confidence s_score f_score * (4 / 10)"

definition calculate_confidence :: "features \<Rightarrow> rat \<Rightarrow> rat \<Rightarrow> rat" where
  "calculate_confidence f s_score f_score =
     min (max (overall_confidence f s_score f_score) (1 / 10)) 1"

subsection \<open>The analyzer (\<open>analyze_tone\<close>)\<close>

definition blank_analysis :: tone_analysis where
  "blank_analysis =
     \<lparr> sentiment = Sentiment_NEUTRAL, formality = Formality_NEUTRAL,
       scores = \<lparr> sentiment_score = 0, formality_score = 0 \<rparr>,
       confidence = 0, features = None \<rparr>"

definition analyze_tone :: "string \<Rightarrow> tone_analysis option" where
  "analyze_tone text =
     (if py_strip text = [] then Some blank_analysis
      else do {
        f \<leftarrow> extract_features text;
        let (sent, s_score) = analyze_sentiment text f;
        (form, f_score) \<leftarrow> analyze_formality text f;
        let conf = calculate_confidence f s_score f_score;
        Some \<lparr> sentiment = sent, formality = form,
               scores = \<lparr> sentiment_score = s_score, formality_score = f_score \<rparr>,
               confidence = conf, features = Some f \<rparr>
      })"

section \<open>Batch endpoint (server/routers/tone.py, \<open>analyze_tone_batch\<close>)\<close>

text \<open>One entry of \<open>results\<close>. The key \<open>reason\<close> is present in the skipped entries only.
  The processing time of the response is not modelled.\<close>

record batch_item =
  item_text :: string
  label_sentiment :: string
  label_formality :: string
  item_scores :: tone_scores
  item_confidence :: rat
  skipped :: bool
  reason :: "string option"

record batch_response =
  results :: "batch_item list"
  total_texts :: int
  successful_analyses :: int
  average_confidence :: rat

text \<open>\<open>HTTPException(status_code, detail)\<close>.\<close>

datatype http_error = HTTPException int string

definition skipped_item :: "string \<Rightarrow> string \<Rightarrow> batch_item" where
  "skipped_item text why =
     \<lparr> item_text = text, label_sentiment = ''neutral'', label_formality = ''neutral'',
       item_scores = \<lparr> sentiment_score = 0, formality_score = 0 \<rparr>,
       item_confidence = 0, skipped = True, reason = Some why \<rparr>"

definition analysed_item :: "string \<Rightarrow> tone_analysis \<Rightarrow> batch_item" where
  "analysed_item text analysis =
     \<lparr> item_text = text,
       label_sentiment = sentiment_value (sentiment analysis),
       label_formality = formality_value (formality analysis),
       item_scores = scores analysis,
       item_confidence = confidence analysis, skipped = False, reason = None \<rparr>"

text \<open>The body of the \<open>for\<close> loop, on the state \<open>(results, total_confidence,
  processed_count)\<close>. An exception of \<open>analyze_tone\<close> is caught and reported in the
  entry.\<close>

definition batch_step :: "batch_item list \<times> rat \<times> int \<Rightarrow> string \<Rightarrow> batch_item list \<times> rat \<times> int" where
  "batch_step = (\<lambda>(res, total_confidence, processed_count) text.
     if py_strip text = []
       then (res @ [skipped_item text ''Empty text''], total_confidence, processed_count)
     else (case analyze_tone text of
        Some analysis \<Rightarrow>
          (res @ [analysed_item text analysis],
           total_confidence + confidence analysis, processed_count + 1)
      | None \<Rightarrow>
          (res @ [skipped_item text ''Analysis failed: division by zero''],
           total_confidence, processed_count)))"

definition batch_loop :: "string list \<Rightarrow> batch_item list \<times> rat \<times> int" where
  "batch_loop texts = foldl batch_step ([], 0, 0) texts"

definition analyze_tone_batch :: "string list \<Rightarrow> http_error + batch_response" where
  "analyze_tone_batch texts =
     (if texts = [] then Inl (HTTPException 400 ''No texts provided'')
      else if length texts > 10
        then Inl (HTTPException 400 ''Too many texts. Maximum 10 texts per batch request.'')
      else (case batch_loop texts of (res, total_confidence, processed_count) \<Rightarrow>
        (case truediv total_confidence (of_int (max processed_count 1)) of
           None \<Rightarrow> Inl (HTTPException 500 ''Batch tone analysis failed: float division by zero'')
         | Some avg \<Rightarrow>
             Inr \<lparr> results = res, total_texts = int (length texts),
                   successful_analyses = processed_count, average_confidence = avg \<rparr>)))"

section \<open>The formality scorer as the specification words it\<close>

text \<open>Step 5 of the specification's formality scorer: the adjustment is made whenever
  \<open>sentence_count > 0\<close>, and skipped only when \<open>sentence_count = 0\<close>.\<close>

definition spec_sentence_length :: "features \<Rightarrow> rat \<times> rat \<Rightarrow> (rat \<times> rat) option" where
  "spec_sentence_length f = (\<lambda>(formal_score, casual_score).
     if sentence_count f > 0 then do {
       avg_sentence_length \<leftarrow> truediv (of_int (word_count f)) (of_int (sentence_count f));
       Some (if avg_sentence_length > 15 then (formal_score + 4 / 10, casual_score)
             else if avg_sentence_length < 8 then (formal_score, casual_score + 3 / 10)
             else (formal_score, casual_score))
     } else Some (formal_score, casual_score))"

definition spec_analyze_formality :: "features \<Rightarrow> (formality \<times> rat) option" where
  "spec_analyze_formality f = do {
     (formal_score, casual_score) \<leftarrow>
       spec_sentence_length f (formality_word_length f (formality_punctuation f (formality_base f)));
     let net_score = formal_score - casual_score;
     Some (formality_category net_score, net_score)
   }"

section \<open>Auxiliary facts\<close>

lemma truediv_Some [simp]: "b \<noteq> 0 \<Longrightarrow> truediv a b = Some (a / b)"
  by (simp add: truediv_def)

lemma sentiment_net_mono:
  assumes "0 \<le> exclamation_ratio f" and "positive_ratio f \<le> r"
  shows "snd (analyze_sentiment text f)
       \<le> snd (analyze_sentiment text (f\<lparr>positive_word_count := c, positive_ratio := r\<rparr>))"
  using assms
  by (auto simp: analyze_sentiment_def sentiment_caps_def sentiment_emoticon_def
      sentiment_exclamation_def sentiment_base_def Let_def split: if_splits)

lemma code_point_less: "code_point c < 256"
  by (simp add: code_point_def)

lemma code_point_char_of: "n < 256 \<Longrightarrow> code_point (char_of n) = n"
  by (simp add: code_point_def)

lemma code_point_lower_char:
  "code_point (lower_char c) =
     (let n = code_point c
      in if (65 \<le> n \<and> n \<le> 90) \<or> (192 \<le> n \<and> n \<le> 214) \<or> (216 \<le> n \<and> n \<le> 222)
         then n + 32 else n)"
  by (simp add: lower_char_def Let_def code_point_char_of)

lemma re_word_char_lower [simp]: "re_word_char (lower_char c) = re_word_char c"
  unfolding re_word_char_def code_point_lower_char Let_def by auto

lemma py_isspace_lower [simp]: "py_isspace (lower_char c) = py_isspace c"
  unfolding py_isspace_def code_point_lower_char Let_def by auto

lemma not_upper_lower_char: "\<not> ascii_upper (lower_char c)"
  unfolding ascii_upper_def code_point_lower_char Let_def by auto

lemma space_not_word: "re_word_char c \<Longrightarrow> \<not> py_isspace c"
  unfolding re_word_char_def py_isspace_def Let_def by auto



lemma runs_map:
  assumes "\<And>c. P (f c) = P c"
  shows "runs P (map f xs) = map (map f) (runs P xs)"
  using assms
proof (induction P xs rule: runs.induct)
  case (1 P)
  show ?case by simp
next
  case (2 P x xs)
  then have c: "P \<circ> f = P" by (simp add: fun_eq_iff)
  show ?case using 2 by (simp add: takeWhile_map dropWhile_map c)
qed

lemma runs_append_sep:
  "\<not> P b \<Longrightarrow> runs P (as @ b # bs) = runs P as @ runs P bs"
proof (induction P as rule: runs.induct)
  case (1 P)
  then show ?case by simp
next
  case (2 P x xs)
  show ?case
  proof (cases "P x")
    case False
    with 2 show ?thesis by simp
  next
    case True
    have t: "takeWhile P (xs @ b # bs) = takeWhile P xs"
      using 2(3) by (induction xs) auto
    have d: "dropWhile P (xs @ b # bs) = dropWhile P xs @ b # bs"
      using 2(3) by (induction xs) auto
    from True 2 show ?thesis by (simp add: t d)
  qed
qed

lemma runs_concat:
  assumes "\<And>c. P c \<Longrightarrow> Q c"
  shows "runs P xs = concat (map (runs P) (runs Q xs))"
  using assms
proof (induction Q xs rule: runs.induct)
  case (1 Q)
  show ?case by simp
next
  case (2 Q x xs)
  show ?case
  proof (cases "Q x")
    case False
    then have "\<not> P x" using 2(3) by blast
    with False 2 show ?thesis by simp
  next
    case True
    have split: "runs P (x # xs) = runs P (takeWhile Q (x # xs)) @ runs P (dropWhile Q xs)"
    proof (cases "dropWhile Q xs")
      case Nil
      then have "takeWhile Q xs = xs" by (metis takeWhile_dropWhile_id append_Nil2)
      with True have "takeWhile Q (x # xs) = x # xs" by simp
      then show ?thesis by (simp only: Nil runs.simps(1) append_Nil2)
    next
      case (Cons b bs)
      then have nb: "\<not> Q b" using hd_dropWhile [of Q xs] by auto
      then have npb: "\<not> P b" using 2(3) by blast
      define t where "t = takeWhile Q (x # xs)"
      have "dropWhile Q (x # xs) = b # bs" using True Cons by simp
      then have "x # xs = t @ b # bs"
        unfolding t_def by (metis takeWhile_dropWhile_id)
      moreover have "runs P (t @ b # bs) = runs P t @ runs P bs"
        using npb by (rule runs_append_sep)
      ultimately have "runs P (x # xs) = runs P (takeWhile Q (x # xs)) @ runs P bs"
        unfolding t_def by metis
      moreover have "runs P (dropWhile Q xs) = runs P bs" using Cons npb by simp
      ultimately show ?thesis by simp
    qed
    from True 2 have "concat (map (runs P) (runs Q (x # xs)))
        = runs P (takeWhile Q (x # xs)) @ runs P (dropWhile Q xs)" by simp
    with split show ?thesis by simp
  qed
qed


lemma of_int_max_1_neq_0 [simp]: "(of_int (max n 1) :: rat) \<noteq> 0"
proof -
  have "0 < max n 1" by simp
  then show ?thesis by (metis of_int_0_eq_iff less_irrefl)
qed

lemma count_in_bounds: "0 \<le> count_in lexicon ws \<and> count_in lexicon ws \<le> int (length ws)"
  by (simp add: count_in_def)

lemma length_words_lower:
  "length (word_findall (py_lower text)) = length (runs re_word_char text)"
  by (simp add: word_findall_def py_lower_def runs_map)

lemma caps_le_words:
  "length (caps_findall text) \<le> length (word_findall (py_lower text))"
  unfolding length_words_lower caps_findall_def by (rule length_filter_le)

lemma runs_nonempty: "P x \<Longrightarrow> runs P (x # xs) \<noteq> []"
  by simp

lemma contractions_start_with_letter:
  "list_all (\<lambda>w. re_word_char (hd w) \<and> w \<noteq> []) contractions"
  by code_simp

lemma contraction_has_word:
  assumes "w \<in> set contractions"
  shows "1 \<le> length (runs re_word_char w)"
proof -
  from assms contractions_start_with_letter have "re_word_char (hd w)" and "w \<noteq> []"
    by (auto simp: list_all_iff)
  then obtain x xs where "w = x # xs" and "re_word_char x" by (cases w) auto
  then show ?thesis by simp
qed

lemma filter_le_sum_list:
  "(\<And>x. x \<in> set xs \<Longrightarrow> p x \<Longrightarrow> 1 \<le> g x) \<Longrightarrow> length (filter p xs) \<le> sum_list (map g xs)"
proof (induction xs)
  case Nil
  show ?case by simp
next
  case (Cons a xs)
  then have ih: "length (filter p xs) \<le> sum_list (map g xs)" by simp
  show ?case
  proof (cases "p a")
    case True
    with Cons.prems have "1 \<le> g a" by simp
    with ih True show ?thesis by simp
  next
    case False
    with ih show ?thesis by simp
  qed
qed

lemma words_by_token:
  "word_findall (py_lower text)
     = concat (map (\<lambda>t. runs re_word_char (py_lower t)) (py_split text))"
proof -
  have "runs re_word_char (map lower_char text)
      = concat (map (runs re_word_char) (runs (\<lambda>c. \<not> py_isspace c) (map lower_char text)))"
    by (rule runs_concat) (rule space_not_word)
  also have "runs (\<lambda>c. \<not> py_isspace c) (map lower_char text)
      = map (map lower_char) (runs (\<lambda>c. \<not> py_isspace c) text)"
    by (rule runs_map) simp
  finally show ?thesis
    by (simp add: word_findall_def py_lower_def py_split_def comp_def)
qed

lemma contraction_le_words:
  "count_in contractions (map py_lower (py_split text))
     \<le> int (length (word_findall (py_lower text)))"
proof -
  have "length (filter (\<lambda>t. py_lower t \<in> set contractions) (py_split text))
      \<le> sum_list (map (\<lambda>t. length (runs re_word_char (py_lower t))) (py_split text))"
    by (rule filter_le_sum_list) (rule contraction_has_word)
  also have "\<dots> = length (word_findall (py_lower text))"
    by (simp add: words_by_token length_concat comp_def)
  finally show ?thesis
    by (simp add: count_in_def filter_map comp_def)
qed


lemma extract_features_eq:
  "extract_features text =
     Some \<lparr> word_count = int (length (word_findall (py_lower text))),
            char_count = int (length text),
            sentence_count = int (length (filter (\<lambda>s. py_strip s \<noteq> []) (re_split_punct text))),
            avg_word_length =
              of_int (sum_list (map (\<lambda>w. int (length w)) (word_findall (py_lower text))))
                / of_int (max (int (length (word_findall (py_lower text)))) 1),
            exclamation_count = int (length (exclamation_findall text)),
            question_count = int (length (question_findall text)),
            caps_words = int (length (caps_findall text)),
            ellipsis_count = int (length (ellipsis_findall text)),
            emoticon_count = int (length (emoticon_findall text)),
            positive_word_count = count_in positive_words (word_findall (py_lower text)),
            negative_word_count = count_in negative_words (word_findall (py_lower text)),
            formal_word_count = count_in formal_words (word_findall (py_lower text)),
            casual_word_count = count_in casual_words (word_findall (py_lower text)),
            contraction_count = count_in contractions (map py_lower (py_split text)),
            positive_ratio =
              of_int (count_in positive_words (word_findall (py_lower text)))
                / of_int (max (int (length (word_findall (py_lower text)))) 1),
            negative_ratio =
              of_int (count_in negative_words (word_findall (py_lower text)))
                / of_int (max (int (length (word_findall (py_lower text)))) 1),
            formal_ratio =
              of_int (count_in formal_words (word_findall (py_lower text)))
                / of_int (max (int (length (word_findall (py_lower text)))) 1),
            casual_ratio =
              of_int (count_in casual_words (word_findall (py_lower text)))
                / of_int (max (int (length (word_findall (py_lower text)))) 1),
            contraction_ratio =
              of_int (count_in contractions (map py_lower (py_split text)))
                / of_int (max (int (length (word_findall (py_lower text)))) 1),
            caps_ratio =
              of_int (int (length (caps_findall text)))
                / of_int (max (int (length (word_findall (py_lower text)))) 1),
            exclamation_ratio =
              of_int (int (length (exclamation_findall text)))
                / of_int (max (int (length (filter (\<lambda>s. py_strip s \<noteq> [])
                                                (re_split_punct text)))) 1) \<rparr>"
  unfolding extract_features_def Let_def by (simp del: of_int_max)

lemma ratio_bounds:
  assumes "0 \<le> a" and "a \<le> w"
  shows "0 \<le> (of_int a :: rat) / of_int (max w 1) \<and> (of_int a :: rat) / of_int (max w 1) \<le> 1"
proof -
  have p: "(0::rat) < of_int (max w 1)" by simp
  have "a \<le> max w 1" using assms(2) by simp
  then have "(of_int a :: rat) \<le> of_int (max w 1)" by (simp only: of_int_le_iff)
  with p have "(of_int a :: rat) / of_int (max w 1) \<le> 1" by (simp add: divide_le_eq)
  moreover have "0 \<le> (of_int a :: rat) / of_int (max w 1)" using assms(1) p by simp
  ultimately show ?thesis by simp
qed

lemma ratio_nonneg:
  "0 \<le> a \<Longrightarrow> 0 \<le> (of_int a :: rat) / of_int (max w 1)"
  by simp

lemma extract_features_fields:
  assumes "extract_features text = Some f"
  shows "word_count f = int (length (word_findall (py_lower text)))"
    and "char_count f = int (length text)"
    and "sentence_count f = int (length (filter (\<lambda>s. py_strip s \<noteq> []) (re_split_punct text)))"
    and "avg_word_length f =
           of_int (sum_list (map (\<lambda>w. int (length w)) (word_findall (py_lower text))))
             / of_int (max (word_count f) 1)"
    and "exclamation_count f = int (length (exclamation_findall text))"
    and "question_count f = int (length (question_findall text))"
    and "caps_words f = int (length (caps_findall text))"
    and "ellipsis_count f = int (length (ellipsis_findall text))"
    and "emoticon_count f = int (length (emoticon_findall text))"
    and "positive_word_count f = count_in positive_words (word_findall (py_lower text))"
    and "negative_word_count f = count_in negative_words (word_findall (py_lower text))"
    and "formal_word_count f = count_in formal_words (word_findall (py_lower text))"
    and "casual_word_count f = count_in casual_words (word_findall (py_lower text))"
    and "contraction_count f = count_in contractions (map py_lower (py_split text))"
    and "positive_ratio f = of_int (positive_word_count f) / of_int (max (word_count f) 1)"
    and "negative_ratio f = of_int (negative_word_count f) / of_int (max (word_count f) 1)"
    and "formal_ratio f = of_int (formal_word_count f) / of_int (max (word_count f) 1)"
    and "casual_ratio f = of_int (casual_word_count f) / of_int (max (word_count f) 1)"
    and "contraction_ratio f = of_int (contraction_count f) / of_int (max (word_count f) 1)"
    and "caps_ratio f = of_int (caps_words f) / of_int (max (word_count f) 1)"
    and "exclamation_ratio f = of_int (exclamation_count f) / of_int (max (sentence_count f) 1)"
  using assms unfolding extract_features_eq by auto

lemma formality_sentence_length_Some:
  "\<exists>q. formality_sentence_length f p = Some q"
  by (cases p) (simp add: formality_sentence_length_def)

lemma analyze_formality_Some:
  "\<exists>form f_score. analyze_formality text f = Some (form, f_score)"
proof -
  obtain q where "formality_sentence_length f
      (formality_word_length f (formality_punctuation f (formality_base f))) = Some q"
    using formality_sentence_length_Some by blast
  then show ?thesis
    by (cases q) (simp add: analyze_formality_def Let_def)
qed

lemma analyze_tone_nonblank:
  assumes "py_strip text \<noteq> []"
  shows "\<exists>f sent s_score form f_score.
           extract_features text = Some f
         \<and> analyze_sentiment text f = (sent, s_score)
         \<and> analyze_formality text f = Some (form, f_score)
         \<and> analyze_tone text =
             Some \<lparr> sentiment = sent, formality = form,
                    scores = \<lparr> sentiment_score = s_score, formality_score = f_score \<rparr>,
                    confidence = calculate_confidence f s_score f_score,
                    features = Some f \<rparr>"
proof -
  obtain f where f: "extract_features text = Some f"
    by (simp add: extract_features_eq)
  obtain sent s_score where s: "analyze_sentiment text f = (sent, s_score)"
    by (cases "analyze_sentiment text f") simp
  obtain form f_score where fo: "analyze_formality text f = Some (form, f_score)"
    using analyze_formality_Some by blast
  from assms f s fo have "analyze_tone text =
      Some \<lparr> sentiment = sent, formality = form,
             scores = \<lparr> sentiment_score = s_score, formality_score = f_score \<rparr>,
             confidence = calculate_confidence f s_score f_score,
             features = Some f \<rparr>"
    by (simp add: analyze_tone_def)
  with f s fo show ?thesis by blast
qed

lemma calculate_confidence_range:
  "1 / 10 \<le> calculate_confidence f s t \<and> calculate_confidence f s t \<le> 1"
  by (simp add: calculate_confidence_def)

lemma py_lower_no_upper: "list_all (\<lambda>c. \<not> ascii_upper c) (py_lower w)"
  by (simp add: py_lower_def list_all_iff not_upper_lower_char)

lemma capitalised_not_lowered:
  "py_lower w \<notin> {''I'm'', ''I've'', ''I'd'', ''I'll''}"
proof
  assume a: "py_lower w \<in> {''I'm'', ''I've'', ''I'd'', ''I'll''}"
  have "list_all (\<lambda>c. \<not> ascii_upper c) (py_lower w)" by (rule py_lower_no_upper)
  moreover have "ascii_upper CHR ''I''" by (simp add: ascii_upper_def code_point_def)
  ultimately show False using a by auto
qed

lemma foldl_batch_step:
  "\<exists>t' n'. foldl batch_step (res, t, n) texts =
     (res @ map (\<lambda>text.
         if py_strip text = [] then skipped_item text ''Empty text''
         else (case analyze_tone text of
                 Some analysis \<Rightarrow> analysed_item text analysis
               | None \<Rightarrow> skipped_item text ''Analysis failed: division by zero'')) texts,
      t', n')"
proof (induction texts arbitrary: res t n)
  case Nil
  show ?case by simp
next
  case (Cons x xs)
  obtain res1 t1 n1 where st: "batch_step (res, t, n) x = (res1, t1, n1)"
    by (cases "batch_step (res, t, n) x") auto
  then have r1: "res1 = res @ [if py_strip x = [] then skipped_item x ''Empty text''
         else (case analyze_tone x of
                 Some analysis \<Rightarrow> analysed_item x analysis
               | None \<Rightarrow> skipped_item x ''Analysis failed: division by zero'')]"
    by (auto simp: batch_step_def split: if_splits option.splits)
  from Cons [of res1 t1 n1] st r1 show ?case by simp
qed

lemma analyze_tone_batch_results:
  assumes "texts \<noteq> []" and "length texts \<le> 10"
  shows "\<exists>resp. analyze_tone_batch texts = Inr resp
     \<and> results resp = map (\<lambda>text.
         if py_strip text = [] then skipped_item text ''Empty text''
         else (case analyze_tone text of
                 Some analysis \<Rightarrow> analysed_item text analysis
               | None \<Rightarrow> skipped_item text ''Analysis failed: division by zero'')) texts"
proof -
  obtain t n where "batch_loop texts =
     (map (\<lambda>text.
         if py_strip text = [] then skipped_item text ''Empty text''
         else (case analyze_tone text of
                 Some analysis \<Rightarrow> analysed_item text analysis
               | None \<Rightarrow> skipped_item text ''Analysis failed: division by zero'')) texts, t, n)"
    unfolding batch_loop_def using foldl_batch_step [of "[]" 0 0 texts] by auto
  with assms show ?thesis
    by (simp add: analyze_tone_batch_def)
qed

section \<open>Properties\<close>

subsection \<open>The sentence-length adjustment of the formality scorer\<close>

text \<open>C1, as the code has it: the adjustment of \<open>_analyze_formality\<close> by the average
  sentence length is made exactly when \<open>word_count > 0\<close> and \<open>sentence_count > 0\<close>: then
  \<open>word_count / sentence_count > 15\<close> adds 0.4 to the formal score, and otherwise a
  quotient below 8 adds 0.3 to the casual score. When either count is 0 the two scores
  are left as they are. For a text with at least one word the scorer agrees with the
  specification's scorer, which tests \<open>sentence_count > 0\<close> only.\<close>

theorem sentence_length_adjustment_guarded:
  "formality_sentence_length f (fs, cs) =
     Some (if word_count f > 0 \<and> sentence_count f > 0
           then (if (of_int (word_count f) :: rat) / of_int (sentence_count f) > 15
                   then (fs + 4 / 10, cs)
                 else if (of_int (word_count f) :: rat) / of_int (sentence_count f) < 8
                   then (fs, cs + 3 / 10)
                 else (fs, cs))
           else (fs, cs))
   \<and> (word_count f > 0 \<longrightarrow> analyze_formality text f = spec_analyze_formality f)"
  by (simp add: formality_sentence_length_def spec_sentence_length_def
      analyze_formality_def spec_analyze_formality_def)

text \<open>The text \<open>great job\<close> has two words; both scorers add 0.3 to the casual score.\<close>

theorem sentence_length_adjustment_guarded_witness:
  "0 < word_count (the (extract_features ''great job''))
   \<and> analyze_formality ''great job'' (the (extract_features ''great job''))
       = Some (Formality_NEUTRAL, - (3 / 10))"
proof -
  let ?f = "the (extract_features ''great job'')"
  have h: "0 < word_count ?f" by code_simp
  have s: "spec_analyze_formality ?f = Some (Formality_NEUTRAL, - (3 / 10))" by code_simp
  from sentence_length_adjustment_guarded [of ?f _ _ "''great job''"] h s
  show ?thesis by simp
qed

text \<open>C1 as the specification states it fails on the punctuation-only text \<open>@#$\<close>: it is
  not blank, it is one sentence segment with no word, and the code leaves the casual
  score at the 0.3 of the word-length step (net score -0.3, neutral), where the
  specification's scorer adds 0.3 more (net score -0.6, casual).\<close>

theorem sentence_length_adjustment_counterexample:
  "py_strip ''@#$'' \<noteq> []
   \<and> map_option sentence_count (extract_features ''@#$'') = Some 1
   \<and> map_option word_count (extract_features ''@#$'') = Some 0
   \<and> Option.bind (extract_features ''@#$'') (analyze_formality ''@#$'')
       = Some (Formality_NEUTRAL, - (3 / 10))
   \<and> Option.bind (extract_features ''@#$'') spec_analyze_formality
       = Some (Formality_CASUAL, - (6 / 10))"
  by code_simp

subsection \<open>The caps step of the sentiment scorer\<close>



subsection \<open>Monotonicity of the sentiment score\<close>

text \<open>C5: let \<open>f\<close> be a feature vector whose \<open>positive_ratio\<close> is its
  \<open>positive_word_count\<close> over \<open>max(word_count, 1)\<close> and whose \<open>exclamation_ratio\<close> is not
  negative, as in every vector that \<open>_extract_features\<close> returns. Raising
  \<open>positive_word_count\<close> to \<open>c\<close>, and \<open>positive_ratio\<close> with it, all other fields fixed,
  does not lower the net score of \<open>_analyze_sentiment\<close>.\<close>

theorem positive_count_monotone:
  assumes "0 \<le> exclamation_ratio f"
    and "positive_ratio f = of_int (positive_word_count f) / of_int (max (word_count f) 1)"
    and "positive_word_count f < c"
  shows "snd (analyze_sentiment text f)
       \<le> snd (analyze_sentiment text
               (f\<lparr>positive_word_count := c,
                  positive_ratio := of_int c / of_int (max (word_count f) 1)\<rparr>))"
proof -
  have "(0::rat) < of_int (max (word_count f) 1)" by simp
  with assms(3) have "(of_int (positive_word_count f) :: rat) / of_int (max (word_count f) 1)
      \<le> of_int c / of_int (max (word_count f) 1)"
    by (simp add: divide_right_mono)
  with assms(2) have "positive_ratio f \<le> of_int c / of_int (max (word_count f) 1)" by simp
  with assms(1) show ?thesis by (rule sentiment_net_mono)
qed

text \<open>The text \<open>good day!\<close> has one positive word out of two; with two the net score
  rises from 1.5 to 2.5.\<close>

theorem positive_count_monotone_witness:
  "0 \<le> exclamation_ratio (the (extract_features ''good day!''))
   \<and> positive_ratio (the (extract_features ''good day!''))
       = of_int (positive_word_count (the (extract_features ''good day!'')))
         / of_int (max (word_count (the (extract_features ''good day!''))) 1)
   \<and> positive_word_count (the (extract_features ''good day!'')) < 2
   \<and> snd (analyze_sentiment ''good day!'' (the (extract_features ''good day!''))) = 3 / 2
   \<and> snd (analyze_sentiment ''good day!''
            ((the (extract_features ''good day!''))
               \<lparr>positive_word_count := 2,
                positive_ratio := of_int 2
                  / of_int (max (word_count (the (extract_features ''good day!''))) 1)\<rparr>)) = 5 / 2"
proof -
  let ?f = "the (extract_features ''good day!'')"
  have h1: "0 \<le> exclamation_ratio ?f" by code_simp
  have h2: "positive_ratio ?f = of_int (positive_word_count ?f) / of_int (max (word_count ?f) 1)"
    by code_simp
  have h3: "positive_word_count ?f < 2" by code_simp
  have v1: "snd (analyze_sentiment ''good day!'' ?f) = 3 / 2" by code_simp
  have v2: "snd (analyze_sentiment ''good day!''
     (?f\<lparr>positive_word_count := 2,
         positive_ratio := of_int 2 / of_int (max (word_count ?f) 1)\<rparr>)) = 5 / 2" by code_simp
  from positive_count_monotone [OF h1 h2 h3, of "''good day!''"] h1 h2 h3 v1 v2
  show ?thesis by simp
qed

subsection \<open>The sample text of the health check\<close>

text \<open>C8: for the text of \<open>health_check\<close>, \<open>analyze_tone\<close> returns a positive sentiment
  and a confidence above 0.3.\<close>

theorem health_check_sample:
  "map_option (\<lambda>r. (sentiment r, 3 / 10 < confidence r))
     (analyze_tone ''I'm really excited about this amazing opportunity!'')
   = Some (Sentiment_POSITIVE, True)"
  by code_simp

subsection \<open>Blank input\<close>

text \<open>C4: when \<open>text.strip()\<close> is empty, \<open>analyze_tone\<close> returns neutral sentiment,
  neutral formality, both scores 0.0, confidence 0.0 and the empty feature map.\<close>

theorem blank_input_result:
  "py_strip text = [] \<Longrightarrow>
   analyze_tone text =
     Some \<lparr> sentiment = Sentiment_NEUTRAL, formality = Formality_NEUTRAL,
            scores = \<lparr> sentiment_score = 0, formality_score = 0 \<rparr>,
            confidence = 0, features = None \<rparr>"
  by (simp add: analyze_tone_def blank_analysis_def)

theorem blank_input_result_witness:
  "py_strip [CHR '' '', CHR 0x09, CHR 0x0A] = [] \<and>
   analyze_tone [CHR '' '', CHR 0x09, CHR 0x0A] =
     Some \<lparr> sentiment = Sentiment_NEUTRAL, formality = Formality_NEUTRAL,
            scores = \<lparr> sentiment_score = 0, formality_score = 0 \<rparr>,
            confidence = 0, features = None \<rparr>"
proof -
  have b: "py_strip [CHR '' '', CHR 0x09, CHR 0x0A] = []"
    by (simp add: py_strip_def py_isspace_def code_point_def)
  from b blank_input_result [OF b] show ?thesis by simp
qed

subsection \<open>Range of the confidence\<close>

text \<open>C2: \<open>analyze_tone\<close> returns a result whose confidence is 0.0 exactly when the text
  is blank; for a text that is not blank the confidence lies in [0.1, 1.0] and is
  \<open>length_confidence * 0.6 + feature_confidence * 0.4\<close> clamped below at 0.1 and above at
  1.0.\<close>

theorem confidence_range:
  "\<exists>r. analyze_tone text = Some r
     \<and> (confidence r = 0) = (py_strip text = [])
     \<and> (py_strip text \<noteq> [] \<longrightarrow>
          1 / 10 \<le> confidence r \<and> confidence r \<le> 1
          \<and> (\<exists>f. features r = Some f
                \<and> confidence r =
                    min (max (length_confidence f * (6 / 10)
                              + feature_confidence (sentiment_score (scores r))
                                  (formality_score (scores r)) * (4 / 10))
                             (1 / 10)) 1))"
proof (cases "py_strip text = []")
  case True
  then show ?thesis by (simp add: analyze_tone_def blank_analysis_def)
next
  case False
  from analyze_tone_nonblank [OF False]
  obtain f sent s_score form f_score where
    r: "analyze_tone text =
             Some \<lparr> sentiment = sent, formality = form,
                    scores = \<lparr> sentiment_score = s_score, formality_score = f_score \<rparr>,
                    confidence = calculate_confidence f s_score f_score,
                    features = Some f \<rparr>"
    by blast
  have rng: "1 / 10 \<le> calculate_confidence f s_score f_score
      \<and> calculate_confidence f s_score f_score \<le> 1"
    by (rule calculate_confidence_range)
  then have nz: "calculate_confidence f s_score f_score \<noteq> 0" by auto
  have eq: "calculate_confidence f s_score f_score =
      min (max (length_confidence f * (6 / 10)
                + feature_confidence s_score f_score * (4 / 10)) (1 / 10)) 1"
    by (simp add: calculate_confidence_def overall_confidence_def)
  let ?r = "\<lparr> sentiment = sent, formality = form,
              scores = \<lparr> sentiment_score = s_score, formality_score = f_score \<rparr>,
              confidence = calculate_confidence f s_score f_score,
              features = Some f \<rparr>"
  have sel: "confidence ?r = calculate_confidence f s_score f_score"
    "features ?r = Some f" "sentiment_score (scores ?r) = s_score"
    "formality_score (scores ?r) = f_score"
    by simp_all
  have "(confidence ?r = 0) = (py_strip text = [])
     \<and> (py_strip text \<noteq> [] \<longrightarrow>
          1 / 10 \<le> confidence ?r \<and> confidence ?r \<le> 1
          \<and> (\<exists>f. features ?r = Some f
                \<and> confidence ?r =
                    min (max (length_confidence f * (6 / 10)
                              + feature_confidence (sentiment_score (scores ?r))
                                  (formality_score (scores ?r)) * (4 / 10))
                             (1 / 10)) 1))"
    unfolding sel using False rng nz eq by blast
  with r show ?thesis by blast
qed

theorem confidence_range_witness:
  "py_strip ''great job'' \<noteq> []
   \<and> map_option confidence (analyze_tone ''great job'') = Some (71 / 250)
   \<and> (1 / 10 :: rat) \<le> 71 / 250 \<and> (71 / 250 :: rat) \<le> 1"
proof -
  have nb: "py_strip ''great job'' \<noteq> []" by code_simp
  have v: "map_option confidence (analyze_tone ''great job'') = Some (71 / 250)" by code_simp
  from confidence_range [of "''great job''"] nb v show ?thesis by auto
qed

subsection \<open>Totality\<close>

text \<open>C9: for every text, feature extraction returns a feature vector, the formality
  scorer returns for every feature vector, and \<open>analyze_tone\<close> returns a result with a
  confidence in [0, 1] and with features exactly when the text is not blank: no
  division by zero is reached. (The sentiment scorer and the confidence computation
  divide by literals only.)\<close>

theorem analyze_tone_total:
  "(\<exists>f. extract_features text = Some f)
   \<and> (\<exists>c. analyze_formality text g = Some c)
   \<and> (\<exists>r. analyze_tone text = Some r \<and> 0 \<le> confidence r \<and> confidence r \<le> 1
          \<and> (features r = None) = (py_strip text = []))"
proof -
  have a: "\<exists>f. extract_features text = Some f" by (simp add: extract_features_eq)
  have b: "\<exists>c. analyze_formality text g = Some c" using analyze_formality_Some by blast
  have c: "\<exists>r. analyze_tone text = Some r \<and> 0 \<le> confidence r \<and> confidence r \<le> 1
          \<and> (features r = None) = (py_strip text = [])"
  proof (cases "py_strip text = []")
    case True
    then show ?thesis by (simp add: analyze_tone_def blank_analysis_def)
  next
    case False
    from analyze_tone_nonblank [OF False]
    obtain f sent s_score form f_score where
      r: "analyze_tone text =
             Some \<lparr> sentiment = sent, formality = form,
                    scores = \<lparr> sentiment_score = s_score, formality_score = f_score \<rparr>,
                    confidence = calculate_confidence f s_score f_score,
                    features = Some f \<rparr>"
      by blast
    have "1 / 10 \<le> calculate_confidence f s_score f_score
      \<and> calculate_confidence f s_score f_score \<le> 1"
      by (rule calculate_confidence_range)
    then have "0 \<le> calculate_confidence f s_score f_score
      \<and> calculate_confidence f s_score f_score \<le> 1" by auto
    then show ?thesis unfolding r using False by simp
  qed
  from a b c show ?thesis by blast
qed

theorem analyze_tone_total_witness:
  "map_option (\<lambda>r. (sentiment r, formality r, confidence r))
     (analyze_tone [CHR 0x00, CHR 0xE9, CHR 0x7F, CHR ''!'', CHR 0xA0])
   = Some (Sentiment_NEUTRAL, Formality_CASUAL, 29 / 125)"
proof -
  obtain r where "analyze_tone [CHR 0x00, CHR 0xE9, CHR 0x7F, CHR ''!'', CHR 0xA0] = Some r"
    using analyze_tone_total [of "[CHR 0x00, CHR 0xE9, CHR 0x7F, CHR ''!'', CHR 0xA0]"] by blast
  moreover have "map_option (\<lambda>r. (sentiment r, formality r, confidence r))
     (analyze_tone [CHR 0x00, CHR 0xE9, CHR 0x7F, CHR ''!'', CHR 0xA0])
   = Some (Sentiment_NEUTRAL, Formality_CASUAL, 29 / 125)" by code_simp
  ultimately show ?thesis by simp
qed

subsection \<open>Invariants of the feature vector\<close>

text \<open>C6: for every text the counts of the extracted feature vector are not negative;
  every ratio is its count over a denominator floored at 1; the ratios
  \<open>positive_ratio\<close>, \<open>negative_ratio\<close>, \<open>formal_ratio\<close>, \<open>casual_ratio\<close>,
  \<open>contraction_ratio\<close> and \<open>caps_ratio\<close> lie in [0, 1]; \<open>exclamation_ratio\<close> is not
  negative and can exceed 1: it is 2 for the text \<open>!a!\<close>.\<close>

theorem feature_invariants:
  "\<exists>f. extract_features text = Some f
     \<and> 0 \<le> word_count f \<and> 0 \<le> char_count f \<and> 0 \<le> sentence_count f
     \<and> 0 \<le> exclamation_count f \<and> 0 \<le> question_count f \<and> 0 \<le> caps_words f
     \<and> 0 \<le> ellipsis_count f \<and> 0 \<le> emoticon_count f
     \<and> 0 \<le> positive_word_count f \<and> 0 \<le> negative_word_count f
     \<and> 0 \<le> formal_word_count f \<and> 0 \<le> casual_word_count f \<and> 0 \<le> contraction_count f
     \<and> 1 \<le> max (word_count f) 1 \<and> 1 \<le> max (sentence_count f) 1
     \<and> avg_word_length f =
           of_int (sum_list (map (\<lambda>w. int (length w)) (word_findall (py_lower text))))
             / of_int (max (word_count f) 1)
     \<and> positive_ratio f = of_int (positive_word_count f) / of_int (max (word_count f) 1)
     \<and> negative_ratio f = of_int (negative_word_count f) / of_int (max (word_count f) 1)
     \<and> formal_ratio f = of_int (formal_word_count f) / of_int (max (word_count f) 1)
     \<and> casual_ratio f = of_int (casual_word_count f) / of_int (max (word_count f) 1)
     \<and> contraction_ratio f = of_int (contraction_count f) / of_int (max (word_count f) 1)
     \<and> caps_ratio f = of_int (caps_words f) / of_int (max (word_count f) 1)
     \<and> exclamation_ratio f = of_int (exclamation_count f) / of_int (max (sentence_count f) 1)
     \<and> (0 \<le> positive_ratio f \<and> positive_ratio f \<le> 1)
     \<and> (0 \<le> negative_ratio f \<and> negative_ratio f \<le> 1)
     \<and> (0 \<le> formal_ratio f \<and> formal_ratio f \<le> 1)
     \<and> (0 \<le> casual_ratio f \<and> casual_ratio f \<le> 1)
     \<and> (0 \<le> contraction_ratio f \<and> contraction_ratio f \<le> 1)
     \<and> (0 \<le> caps_ratio f \<and> caps_ratio f \<le> 1)
     \<and> 0 \<le> exclamation_ratio f
     \<and> map_option exclamation_ratio (extract_features ''!a!'') = Some 2"
proof -
  obtain f where f: "extract_features text = Some f"
    by (simp add: extract_features_eq)
  note fs = extract_features_fields [OF f]
  have counts: "0 \<le> word_count f \<and> 0 \<le> char_count f \<and> 0 \<le> sentence_count f
     \<and> 0 \<le> exclamation_count f \<and> 0 \<le> question_count f \<and> 0 \<le> caps_words f
     \<and> 0 \<le> ellipsis_count f \<and> 0 \<le> emoticon_count f
     \<and> 0 \<le> positive_word_count f \<and> 0 \<le> negative_word_count f
     \<and> 0 \<le> formal_word_count f \<and> 0 \<le> casual_word_count f \<and> 0 \<le> contraction_count f"
    by (simp add: fs count_in_bounds)
  have floors: "1 \<le> max (word_count f) 1 \<and> 1 \<le> max (sentence_count f) 1" by simp
  have pos: "0 \<le> positive_ratio f \<and> positive_ratio f \<le> 1"
    unfolding fs(15) by (rule ratio_bounds) (simp_all add: fs(1,10) count_in_bounds)
  have neg: "0 \<le> negative_ratio f \<and> negative_ratio f \<le> 1"
    unfolding fs(16) by (rule ratio_bounds) (simp_all add: fs(1,11) count_in_bounds)
  have form: "0 \<le> formal_ratio f \<and> formal_ratio f \<le> 1"
    unfolding fs(17) by (rule ratio_bounds) (simp_all add: fs(1,12) count_in_bounds)
  have cas: "0 \<le> casual_ratio f \<and> casual_ratio f \<le> 1"
    unfolding fs(18) by (rule ratio_bounds) (simp_all add: fs(1,13) count_in_bounds)
  have con: "0 \<le> contraction_ratio f \<and> contraction_ratio f \<le> 1"
    unfolding fs(19) by (rule ratio_bounds) (simp_all add: fs(1,14) count_in_bounds contraction_le_words)
  have caps: "0 \<le> caps_ratio f \<and> caps_ratio f \<le> 1"
    unfolding fs(20) by (rule ratio_bounds) (simp_all add: fs(1,7) caps_le_words)
  have excl: "0 \<le> exclamation_ratio f"
    unfolding fs(21) by (rule ratio_nonneg) (simp add: fs(5))
  have ex: "map_option exclamation_ratio (extract_features ''!a!'') = Some 2"
    by code_simp
  from f counts floors fs(4) fs(15-21) pos neg form cas con caps excl ex
  show ?thesis by blast
qed

subsection \<open>Contractions stored with a capital letter\<close>

text \<open>C10: \<open>contraction_count\<close> is the number of the white-space separated tokens whose
  lower-case form is in the stored set. No lower-case form is one of the entries
  \<open>I'm\<close>, \<open>I've\<close>, \<open>I'd\<close>, \<open>I'll\<close>, which the set stores with a capital letter and not in
  lower case, so these four entries never count: the count is the same without them, a
  text whose only contractions are these four has count 0, and in \<open>I'm sure you're
  right\<close> only \<open>you're\<close> counts.\<close>

theorem capitalised_contractions_never_counted:
  "(\<exists>f. extract_features text = Some f
       \<and> contraction_count f
           = int (length (filter (\<lambda>w. py_lower w \<in> set contractions) (py_split text)))
       \<and> contraction_count f
           = int (length (filter (\<lambda>w. py_lower w \<in> set contractions
                                       - {''I'm'', ''I've'', ''I'd'', ''I'll''}) (py_split text))))
   \<and> py_lower w \<notin> {''I'm'', ''I've'', ''I'd'', ''I'll''}
   \<and> {''I'm'', ''I've'', ''I'd'', ''I'll''} \<inter> set contractions
       = {''I'm'', ''I've'', ''I'd'', ''I'll''}
   \<and> {''i'm'', ''i've'', ''i'd'', ''i'll''} \<inter> set contractions = {}
   \<and> map_option contraction_count
         (extract_features ''I'm sure I've said I'd help and I'll stay'') = Some 0
   \<and> map_option contraction_count (extract_features ''I'm sure you're right'') = Some 1"
proof -
  obtain f where f: "extract_features text = Some f"
    by (simp add: extract_features_eq)
  have c1: "contraction_count f
      = int (length (filter (\<lambda>w. py_lower w \<in> set contractions) (py_split text)))"
    by (simp add: extract_features_fields(14) [OF f] count_in_def filter_map comp_def)
  have "(\<lambda>w. py_lower w \<in> set contractions)
      = (\<lambda>w. py_lower w \<in> set contractions - {''I'm'', ''I've'', ''I'd'', ''I'll''})"
    using capitalised_not_lowered by auto
  with c1 have c2: "contraction_count f
      = int (length (filter (\<lambda>w. py_lower w \<in> set contractions
                                  - {''I'm'', ''I've'', ''I'd'', ''I'll''}) (py_split text)))"
    by simp
  have s1: "{''I'm'', ''I've'', ''I'd'', ''I'll''} \<inter> set contractions
       = {''I'm'', ''I've'', ''I'd'', ''I'll''}"
    by (auto simp: contractions_def)
  have s2: "{''i'm'', ''i've'', ''i'd'', ''i'll''} \<inter> set contractions = {}"
    by (simp add: contractions_def)
  have e1: "map_option contraction_count
         (extract_features ''I'm sure I've said I'd help and I'll stay'') = Some 0"
    by code_simp
  have e2: "map_option contraction_count (extract_features ''I'm sure you're right'') = Some 1"
    by code_simp
  from f c1 c2 capitalised_not_lowered s1 s2 e1 e2 show ?thesis by blast
qed

subsection \<open>Batch analysis\<close>

text \<open>C7: for a list of at most 10 texts and every position \<open>i\<close> of it,
  \<open>analyze_tone_batch\<close> returns a response with one entry per text, in order; the entry
  of a blank text is the placeholder (neutral labels, zero scores, confidence 0.0,
  skipped with reason \<open>Empty text\<close>), and the entry of any other text carries the result
  of \<open>analyze_tone\<close> on it and is not skipped, whatever the other texts are. For the batch
  of the empty text and \<open>great job\<close>, entry 0 is skipped with reason \<open>Empty text\<close> and
  entry 1 is processed with sentiment positive.\<close>

theorem batch_items:
  assumes "length texts \<le> 10" and "i < length texts"
  shows "(\<exists>resp. analyze_tone_batch texts = Inr resp
           \<and> length (results resp) = length texts
           \<and> (py_strip (texts ! i) = [] \<longrightarrow>
                results resp ! i =
                  \<lparr> item_text = texts ! i,
                    label_sentiment = ''neutral'', label_formality = ''neutral'',
                    item_scores = \<lparr> sentiment_score = 0, formality_score = 0 \<rparr>,
                    item_confidence = 0, skipped = True, reason = Some ''Empty text'' \<rparr>)
           \<and> (py_strip (texts ! i) \<noteq> [] \<longrightarrow>
                (\<exists>a. analyze_tone (texts ! i) = Some a
                   \<and> results resp ! i =
                       \<lparr> item_text = texts ! i,
                         label_sentiment = sentiment_value (sentiment a),
                         label_formality = formality_value (formality a),
                         item_scores = scores a,
                         item_confidence = confidence a, skipped = False, reason = None \<rparr>)))
       \<and> map_sum id (\<lambda>resp. map (\<lambda>it. (skipped it, reason it, label_sentiment it)) (results resp))
           (analyze_tone_batch ['''', ''great job''])
         = Inr [(True, Some ''Empty text'', ''neutral''), (False, None, ''positive'')]"
proof -
  let ?entry = "\<lambda>text.
         if py_strip text = [] then skipped_item text ''Empty text''
         else (case analyze_tone text of
                 Some analysis \<Rightarrow> analysed_item text analysis
               | None \<Rightarrow> skipped_item text ''Analysis failed: division by zero'')"
  from assms have ne: "texts \<noteq> []" by auto
  from analyze_tone_batch_results [OF ne assms(1)]
  obtain resp where resp: "analyze_tone_batch texts = Inr resp"
    and res: "results resp = map ?entry texts" by blast
  have len: "length (results resp) = length texts" by (simp add: res)
  have nth: "results resp ! i = ?entry (texts ! i)"
    unfolding res using assms(2) by (rule nth_map)
  have blank: "py_strip (texts ! i) = [] \<longrightarrow>
                results resp ! i =
                  \<lparr> item_text = texts ! i,
                    label_sentiment = ''neutral'', label_formality = ''neutral'',
                    item_scores = \<lparr> sentiment_score = 0, formality_score = 0 \<rparr>,
                    item_confidence = 0, skipped = True, reason = Some ''Empty text'' \<rparr>"
    by (simp add: nth skipped_item_def)
  have nonblank: "py_strip (texts ! i) \<noteq> [] \<longrightarrow>
                (\<exists>a. analyze_tone (texts ! i) = Some a
                   \<and> results resp ! i =
                       \<lparr> item_text = texts ! i,
                         label_sentiment = sentiment_value (sentiment a),
                         label_formality = formality_value (formality a),
                         item_scores = scores a,
                         item_confidence = confidence a, skipped = False, reason = None \<rparr>)"
  proof
    assume nb: "py_strip (texts ! i) \<noteq> []"
    from analyze_tone_nonblank [OF nb] obtain a where a: "analyze_tone (texts ! i) = Some a"
      by blast
    with nb have "results resp ! i = analysed_item (texts ! i) a" by (simp add: nth)
    with a show "\<exists>a. analyze_tone (texts ! i) = Some a
                   \<and> results resp ! i =
                       \<lparr> item_text = texts ! i,
                         label_sentiment = sentiment_value (sentiment a),
                         label_formality = formality_value (formality a),
                         item_scores = scores a,
                         item_confidence = confidence a, skipped = False, reason = None \<rparr>"
      by (simp add: analysed_item_def)
  qed
  have ex: "map_sum id (\<lambda>resp. map (\<lambda>it. (skipped it, reason it, label_sentiment it)) (results resp))
           (analyze_tone_batch ['''', ''great job''])
         = Inr [(True, Some ''Empty text'', ''neutral''), (False, None, ''positive'')]"
    by code_simp
  from resp len blank nonblank ex show ?thesis by blast
qed

theorem batch_items_witness:
  "length ['''', ''great job''] \<le> 10 \<and> (1::nat) < length ['''', ''great job'']
   \<and> py_strip ''great job'' \<noteq> []
   \<and> map_sum id (\<lambda>resp. map (\<lambda>it. (skipped it, item_confidence it)) (results resp))
        (analyze_tone_batch ['''', ''great job''])
      = Inr [(True, 0), (False, 71 / 250)]"
proof -
  have h1: "length ['''', ''great job''] \<le> 10" by simp
  have h2: "(1::nat) < length ['''', ''great job'']" by simp
  have nb: "py_strip ''great job'' \<noteq> []" by code_simp
  have c: "map_option confidence (analyze_tone ''great job'') = Some (71 / 250)" by code_simp
  from batch_items [OF h1 h2] obtain resp a where
    resp: "analyze_tone_batch ['''', ''great job''] = Inr resp"
    and len: "length (results resp) = 2"
    and r0: "py_strip (['''', ''great job''] ! 1) \<noteq> [] \<longrightarrow>
       (\<exists>a. analyze_tone (['''', ''great job''] ! 1) = Some a \<and> 
          results resp ! 1 = \<lparr> item_text = ['''', ''great job''] ! 1,
                         label_sentiment = sentiment_value (sentiment a),
                         label_formality = formality_value (formality a),
                         item_scores = scores a,
                         item_confidence = confidence a, skipped = False, reason = None \<rparr>)"
    by auto
  have v: "map_sum id (\<lambda>resp. map (\<lambda>it. (skipped it, item_confidence it)) (results resp))
        (analyze_tone_batch ['''', ''great job''])
      = Inr [(True, 0), (False, 71 / 250)]" by code_simp
  from h1 h2 nb v show ?thesis by blast
qed

end
